theory Spec2Isabelle
  imports Main
begin

section \<open>Schema nodes and JavaScript values\<close>

text \<open>
  The values that \<open>helper.ts\<close> meets in the place of a schema. First the schema classes
  that it tests with \<open>instanceof\<close>; \<open>ZodOther tn\<close> is an instance of any other schema
  class, with its \<open>_def.typeName\<close>. The fields of an object schema are kept in
  declaration order, the first binding of a name being the field; \<open>ZodObjectNull\<close> is an
  Object whose \<open>shape\<close> is \<open>null\<close>. Then the values that are no schema: \<open>Undefined\<close>
  and \<open>Null\<close>; \<open>Primitive t n\<close>, a string, number or boolean named \<open>n\<close> that is
  truthy when \<open>t\<close> holds; \<open>NonZod n\<close>, an object or function named \<open>n\<close> without a
  \<open>_def\<close> property, such as the function \<open>Object\<close> that a plain object inherits as
  \<open>constructor\<close>. An Effects, Optional, Default or Array may wrap any of these.
\<close>

datatype zod =
    ZodString | ZodLiteral | ZodNumber | ZodDate | ZodBoolean | ZodNativeEnum | ZodEnum
  | ZodOptional zod | ZodDefault zod | ZodArray zod | ZodEffects zod
  | ZodObject "(string \<times> zod) list"
  | ZodObjectNull
  | ZodUnion "zod list"
  | ZodOther string
  | NonZod string
  | Primitive bool string
  | Undefined
  | Null

text \<open>
  The values the output object \<open>o\<close> holds. Numbers are of a type \<open>'n\<close> left open (a
  \<open>Date\<close> wraps the number of milliseconds); \<open>JBuiltin\<close> is a built-in object reached
  through the prototype chain. An object is its list of own properties in insertion
  order.
\<close>

datatype 'n jsval =
    JStr string | JNum 'n | JBool bool | JDate 'n
  | JArr "'n jsval list"
  | JObj "(string \<times> 'n jsval) list"
  | JBuiltin

text \<open>
  What the code can throw. \<open>ShapeError key\<close> is \<open>Could not find shape for key\<close>,
  \<open>UnexpectedType tn key\<close> is \<open>Unexpected type tn for key\<close>, \<open>Thrown msg\<close> is
  \<open>new Error(msg)\<close> of the OrFail functions, \<open>TypeError\<close> is the engine's own error
  on reading a property of \<open>undefined\<close> or \<open>null\<close>, on \<open>in\<close> applied to a primitive, or
  on calling what is no function. \<open>Unmodelled\<close> is not an error of the program: it marks
  a run that leaves the fragment of JavaScript described here (a property access on an
  output value that is not a plain object, replacing an object's prototype), about which
  nothing is stated.
\<close>

datatype error =
    ShapeError string
  | UnexpectedType string string
  | TypeError
  | Thrown string
  | Unmodelled

text \<open>
  A validation issue: its message and its path (strings and array indices). The other
  members of an issue are read by the engine and never used.
\<close>

datatype pathseg = PStr string | PNum nat

record issue =
  message :: string
  path :: "pathseg list"

text \<open>An entry of the error mapping: one message, or an array of messages.\<close>

datatype errval = Single string | Many "string list"

text \<open>
  What the engine takes from outside the repository: \<open>Number(value)\<close> and
  \<open>Date.parse(value)\<close> (\<open>None\<close> is \<open>NaN\<close>); the members of every value in the place of
  a schema that is not a field mapping: \<open>member z k\<close> is \<open>None\<close> when \<open>z\<close> has no
  property \<open>k\<close> (\<open>k in z\<close> is false and \<open>z[k]\<close> is undefined), and \<open>Some v\<close> when it
  has one, whose value \<open>v\<close> may be \<open>Undefined\<close>; \<open>schema.safeParse(o)\<close>, which returns
  the data (of a type \<open>'d\<close> left open) or the issues; and \<open>JSON.stringify\<close> on an
  error mapping.
\<close>

record ('n, 'd) host =
  Number :: "string \<Rightarrow> 'n option"
  Date_parse :: "string \<Rightarrow> 'n option"
  member :: "zod \<Rightarrow> string \<Rightarrow> zod option"
  safeParse :: "zod \<Rightarrow> 'n jsval \<Rightarrow> issue list + 'd"
  JSON_stringify :: "(string \<times> errval) list \<Rightarrow> string"

section \<open>Properties of plain objects\<close>

definition object_prototype_names :: "string list" where
  "object_prototype_names =
     [''constructor'', ''toString'', ''toLocaleString'', ''valueOf'', ''hasOwnProperty'',
      ''isPrototypeOf'', ''propertyIsEnumerable'', ''__proto__'', ''__defineGetter__'',
      ''__defineSetter__'', ''__lookupGetter__'', ''__lookupSetter__'']"

definition inherited :: "string \<Rightarrow> bool" where
  "inherited k = (k \<in> set object_prototype_names)"

text \<open>\<open>o[k]\<close> on a plain object: the own property, else the inherited member, else undefined.\<close>

definition obj_get :: "(string \<times> 'n jsval) list \<Rightarrow> string \<Rightarrow> 'n jsval option" where
  "obj_get m k =
     (case map_of m k of
        Some v \<Rightarrow> Some v
      | None \<Rightarrow> if inherited k then Some JBuiltin else None)"

fun obj_set :: "(string \<times> 'a) list \<Rightarrow> string \<Rightarrow> 'a \<Rightarrow> (string \<times> 'a) list" where
  "obj_set [] k v = [(k, v)]"
| "obj_set ((k', v') # m) k v = (if k' = k then (k, v) # m else (k', v') # obj_set m k v)"

definition get_prop :: "'n jsval \<Rightarrow> string \<Rightarrow> error + 'n jsval option" where
  "get_prop o' k = (case o' of JObj m \<Rightarrow> Inr (obj_get m k) | _ \<Rightarrow> Inl Unmodelled)"

text \<open>
  \<open>o[k] = v\<close> on a plain object. Assigning to \<open>__proto__\<close> calls the accessor of
  \<open>Object.prototype\<close> and creates no own property: a primitive is ignored, and so is
  \<open>Object.prototype\<close> itself.
\<close>

definition set_prop :: "'n jsval \<Rightarrow> string \<Rightarrow> 'n jsval \<Rightarrow> error + 'n jsval" where
  "set_prop o' k v =
     (case o' of
        JObj m \<Rightarrow>
          if k = ''__proto__'' then
            (case v of
               JArr _ \<Rightarrow> Inl Unmodelled
             | JObj _ \<Rightarrow> Inl Unmodelled
             | JDate _ \<Rightarrow> Inl Unmodelled
             | _ \<Rightarrow> Inr o')
          else Inr (JObj (obj_set m k v))
      | _ \<Rightarrow> Inl Unmodelled)"

section \<open>processDef\<close>

text \<open>The tail of \<open>processDef\<close>: push onto an array at \<open>o[key]\<close>, else assign.\<close>

definition store :: "'n jsval \<Rightarrow> string \<Rightarrow> 'n jsval \<Rightarrow> error + 'n jsval" where
  "store o' key parsedValue =
     (case get_prop o' key of
        Inl e \<Rightarrow> Inl e
      | Inr (Some (JArr xs)) \<Rightarrow> set_prop o' key (JArr (xs @ [parsedValue]))
      | Inr _ \<Rightarrow> set_prop o' key parsedValue)"

definition Boolean :: "string \<Rightarrow> bool" where
  "Boolean value = (value \<noteq> '''')"

text \<open>
  The last branch throws \<open>Unexpected type\<close>; building its message reads
  \<open>def._def.typeName\<close>, which is a TypeError for a value without \<open>_def\<close>.
\<close>

fun processDef :: "('n, 'd) host \<Rightarrow> zod \<Rightarrow> 'n jsval \<Rightarrow> string \<Rightarrow> string \<Rightarrow> error + 'n jsval" where
  "processDef h ZodString o' key value = store o' key (JStr value)"
| "processDef h ZodLiteral o' key value = store o' key (JStr value)"
| "processDef h ZodNumber o' key value =
     store o' key (case Number h value of None \<Rightarrow> JStr value | Some num \<Rightarrow> JNum num)"
| "processDef h ZodDate o' key value =
     store o' key (case Date_parse h value of None \<Rightarrow> JStr value | Some date \<Rightarrow> JDate date)"
| "processDef h ZodBoolean o' key value =
     store o' key
       (JBool (if value = ''true'' then True else if value = ''false'' then False
               else Boolean value))"
| "processDef h ZodNativeEnum o' key value = store o' key (JStr value)"
| "processDef h ZodEnum o' key value = store o' key (JStr value)"
| "processDef h (ZodOptional innerType) o' key value = processDef h innerType o' key value"
| "processDef h (ZodDefault innerType) o' key value = processDef h innerType o' key value"
| "processDef h (ZodArray element) o' key value =
     (case get_prop o' key of
        Inl e \<Rightarrow> Inl e
      | Inr None \<Rightarrow>
          (case set_prop o' key (JArr []) of
             Inl e \<Rightarrow> Inl e
           | Inr o1 \<Rightarrow> processDef h element o1 key value)
      | Inr (Some _) \<Rightarrow> processDef h element o' key value)"
| "processDef h (ZodEffects schema) o' key value = processDef h schema o' key value"
| "processDef h (ZodObject fs) o' key value = Inl (UnexpectedType ''ZodObject'' key)"
| "processDef h ZodObjectNull o' key value = Inl (UnexpectedType ''ZodObject'' key)"
| "processDef h (ZodUnion options) o' key value = Inl (UnexpectedType ''ZodUnion'' key)"
| "processDef h (ZodOther typeName) o' key value = Inl (UnexpectedType typeName key)"
| "processDef h (NonZod n) o' key value = Inl TypeError"
| "processDef h (Primitive t n) o' key value = Inl TypeError"
| "processDef h Undefined o' key value = Inl TypeError"
| "processDef h Null o' key value = Inl TypeError"

section \<open>parseParams\<close>

text \<open>
  The variable \<open>shape\<close> of \<open>parseParams\<close> holds a value in the place of a schema or,
  after \<open>shape.shape\<close>, the plain object that maps field names to schemas.
\<close>

datatype shape = Inst zod | Fields "(string \<times> zod) list"

text \<open>
  The conditional expression in the loop body, \<open>shape.shape\<close> of an Object or
  \<open>shape._def.schema\<close> of an Effects; \<open>None\<close> is \<open>null\<close>, on which the loop throws.
\<close>

definition next_shape :: "zod \<Rightarrow> shape option" where
  "next_shape z =
     (case z of
        ZodObject fs \<Rightarrow> Some (Fields fs)
      | ZodObjectNull \<Rightarrow> None
      | ZodEffects schema \<Rightarrow> (if schema = Null then None else Some (Inst schema))
      | _ \<Rightarrow> None)"

text \<open>The loop condition: \<open>shape\<close> is an instance of ZodObject or of ZodEffects.\<close>

definition object_or_effects :: "shape \<Rightarrow> zod option" where
  "object_or_effects sh =
     (case sh of
        Inst (ZodObject fs) \<Rightarrow> Some (ZodObject fs)
      | Inst ZodObjectNull \<Rightarrow> Some ZodObjectNull
      | Inst (ZodEffects schema) \<Rightarrow> Some (ZodEffects schema)
      | _ \<Rightarrow> None)"

fun shape_size :: "shape \<Rightarrow> nat" where
  "shape_size (Inst z) = Suc (size z)"
| "shape_size (Fields fs) = 0"

lemma next_shape_smaller:
  "object_or_effects sh = Some z \<Longrightarrow> next_shape z = Some sh' \<Longrightarrow> shape_size sh' < shape_size sh"
  by (auto simp: object_or_effects_def next_shape_def split: shape.splits zod.splits if_splits)

text \<open>The \<open>while\<close> loop that finds the shape for a key.\<close>

function find_shape :: "shape \<Rightarrow> string \<Rightarrow> error + shape" where
  "find_shape sh key =
     (case object_or_effects sh of
        None \<Rightarrow> Inr sh
      | Some z \<Rightarrow>
          (case next_shape z of
             None \<Rightarrow> Inl (ShapeError key)
           | Some sh' \<Rightarrow> find_shape sh' key))"
  by pat_completeness auto
termination
  by (relation "measure (\<lambda>(sh, key). shape_size sh)") (auto dest: next_shape_smaller)

declare find_shape.simps [simp del]

text \<open>
  \<open>k in shape\<close>. A field mapping has its own fields and the members that a plain object
  inherits; \<open>in\<close> throws on \<open>undefined\<close>, on \<open>null\<close> and on a primitive.
\<close>

definition shape_in :: "('n, 'd) host \<Rightarrow> shape \<Rightarrow> string \<Rightarrow> error + bool" where
  "shape_in h sh k =
     (case sh of
        Fields fs \<Rightarrow> Inr (map_of fs k \<noteq> None \<or> inherited k)
      | Inst Undefined \<Rightarrow> Inl TypeError
      | Inst Null \<Rightarrow> Inl TypeError
      | Inst (Primitive t n) \<Rightarrow> Inl TypeError
      | Inst z \<Rightarrow> Inr (member h z k \<noteq> None))"

text \<open>
  \<open>shape[k]\<close>, \<open>Undefined\<close> when there is no such property. The member that a field
  mapping inherits under the name \<open>k\<close> is \<open>NonZod k\<close>. Reading a property of
  \<open>undefined\<close> or \<open>null\<close> throws.
\<close>

definition shape_at :: "('n, 'd) host \<Rightarrow> shape \<Rightarrow> string \<Rightarrow> error + zod" where
  "shape_at h sh k =
     (case sh of
        Fields fs \<Rightarrow>
          (case map_of fs k of
             Some def \<Rightarrow> Inr def
           | None \<Rightarrow> Inr (if inherited k then NonZod k else Undefined))
      | Inst Undefined \<Rightarrow> Inl TypeError
      | Inst Null \<Rightarrow> Inl TypeError
      | Inst z \<Rightarrow> Inr (case member h z k of Some v \<Rightarrow> v | None \<Rightarrow> Undefined))"

text \<open>The test \<open>if (def)\<close>: every object is truthy.\<close>

definition truthy :: "zod \<Rightarrow> bool" where
  "truthy def = (case def of Undefined \<Rightarrow> False | Null \<Rightarrow> False | Primitive t n \<Rightarrow> t | _ \<Rightarrow> True)"

text \<open>\<open>key.includes('.')\<close>, and \<open>[parentProp, ...rest] = key.split('.')\<close> with \<open>rest.join('.')\<close>.\<close>

definition includes_dot :: "string \<Rightarrow> bool" where
  "includes_dot key = (CHR ''.'' \<in> set key)"

definition parentProp_of :: "string \<Rightarrow> string" where
  "parentProp_of key = takeWhile (\<lambda>c. c \<noteq> CHR ''.'') key"

definition rest_of :: "string \<Rightarrow> string" where
  "rest_of key = tl (dropWhile (\<lambda>c. c \<noteq> CHR ''.'') key)"

text \<open>\<open>key.includes('[]')\<close> and \<open>key.replace('[]', '')\<close>, which removes the first occurrence.\<close>

fun includes_brackets :: "string \<Rightarrow> bool" where
  "includes_brackets (a # b # cs) =
     (if a = CHR ''['' \<and> b = CHR '']'' then True else includes_brackets (b # cs))"
| "includes_brackets _ = False"

fun replace_brackets :: "string \<Rightarrow> string" where
  "replace_brackets (a # b # cs) =
     (if a = CHR ''['' \<and> b = CHR '']'' then cs else a # replace_brackets (b # cs))"
| "replace_brackets cs = cs"

lemma rest_of_shorter: "includes_dot key \<Longrightarrow> length (rest_of key) < length key"
proof -
  assume "includes_dot key"
  then have "dropWhile (\<lambda>c. c \<noteq> CHR ''.'') key \<noteq> []"
    by (auto simp: includes_dot_def dropWhile_eq_Nil_conv)
  then have "length (rest_of key) < length (dropWhile (\<lambda>c. c \<noteq> CHR ''.'') key)"
    by (simp add: rest_of_def)
  also have "\<dots> \<le> length key"
    by (rule length_dropWhile_le)
  finally show ?thesis .
qed

lemma find_shape_size: "find_shape sh key = Inr sh' \<Longrightarrow> shape_size sh' \<le> shape_size sh"
proof (induction sh key rule: find_shape.induct)
  case (1 sh key)
  show ?case
  proof (cases "object_or_effects sh")
    case None
    with "1.prems" show ?thesis by (simp add: find_shape.simps)
  next
    case (Some z)
    show ?thesis
    proof (cases "next_shape z")
      case None
      with Some "1.prems" show ?thesis by (simp add: find_shape.simps)
    next
      case (Some sh1)
      with \<open>object_or_effects sh = Some z\<close> "1.prems" have "find_shape sh1 key = Inr sh'"
        by (simp add: find_shape.simps)
      with "1.IH" [OF \<open>object_or_effects sh = Some z\<close> Some] have "shape_size sh' \<le> shape_size sh1" .
      moreover have "shape_size sh1 < shape_size sh"
        using next_shape_smaller [OF \<open>object_or_effects sh = Some z\<close> Some] .
      ultimately show ?thesis by simp
    qed
  qed
qed

text \<open>\<open>shape instanceof ZodUnion\<close>, with \<open>shape.options\<close>.\<close>

definition union_options :: "shape \<Rightarrow> zod list option" where
  "union_options sh = (case sh of Inst (ZodUnion options) \<Rightarrow> Some options | _ \<Rightarrow> None)"

lemma union_options_Some:
  "union_options sh = Some options \<longleftrightarrow> sh = Inst (ZodUnion options)"
  by (auto simp: union_options_def split: shape.splits zod.splits)

lemma union_option_smaller:
  assumes "find_shape (Inst schema) key = Inr shape" "union_options shape = Some options"
    and "option \<in> set options"
  shows "size option < size schema"
proof -
  have sh: "shape = Inst (ZodUnion options)"
    using assms(2) by (simp add: union_options_Some)
  have "size option < Suc (size_list size options)"
    using assms(3) by (induction options) auto
  then have "Suc (size option) < shape_size (Inst (ZodUnion options))" by simp
  also have "\<dots> \<le> shape_size (Inst schema)" using find_shape_size [OF assms(1)] sh by simp
  finally show ?thesis by simp
qed

function parseParams ::
  "('n, 'd) host \<Rightarrow> 'n jsval \<Rightarrow> zod \<Rightarrow> string \<Rightarrow> string \<Rightarrow> error + 'n jsval" where
  "parseParams h o' schema key value =
     (case find_shape (Inst schema) key of
        Inl e \<Rightarrow> Inl e
      | Inr shape \<Rightarrow>
          (case union_options shape of
             Some options \<Rightarrow>
               fold (\<lambda>option r.
                       case r of Inl e \<Rightarrow> Inl e | Inr o1 \<Rightarrow> parseParams h o1 option key value)
                    options (Inr o')
           | None \<Rightarrow>
               if includes_dot key then
                 (case get_prop o' (parentProp_of key) of
                    Inl e \<Rightarrow> Inl e
                  | Inr cur \<Rightarrow>
                      (let child = (case cur of None \<Rightarrow> JObj [] | Some v \<Rightarrow> v) in
                       case set_prop o' (parentProp_of key) child of
                         Inl e \<Rightarrow> Inl e
                       | Inr o1 \<Rightarrow>
                           (case shape_in h shape (parentProp_of key) of
                              Inl e \<Rightarrow> Inl e
                            | Inr False \<Rightarrow> Inr o1
                            | Inr True \<Rightarrow>
                                (case shape_at h shape (parentProp_of key) of
                                   Inl e \<Rightarrow> Inl e
                                 | Inr sub \<Rightarrow>
                                     (case parseParams h child sub (rest_of key) value of
                                        Inl e \<Rightarrow> Inl e
                                      | Inr child' \<Rightarrow>
                                          set_prop o1 (parentProp_of key) child')))))
               else
                 (let key' = (if includes_brackets key then replace_brackets key else key) in
                  case shape_at h shape key' of
                    Inl e \<Rightarrow> Inl e
                  | Inr def \<Rightarrow>
                      if truthy def then processDef h def o' key' value else Inr o')))"
  by pat_completeness auto
termination
  by (relation "measures [\<lambda>(h, o', schema, key, value). length key,
                          \<lambda>(h, o', schema, key, value). size schema]")
     (auto dest: union_option_smaller rest_of_shorter)

declare parseParams.simps [simp del]

section \<open>getParamsInternal\<close>

text \<open>
  The entries of \<open>params\<close> (\<open>Array.from\<close> or \<open>Object.entries\<close>) are pairs of strings, in
  order. The loop skips a pair whose value is the empty string; an error thrown by
  \<open>parseParams\<close> ends the call. A value that is no string (\<open>undefined\<close> in a record,
  a file in form data) is not described here.
\<close>

fun parse_entries ::
  "('n, 'd) host \<Rightarrow> zod \<Rightarrow> 'n jsval \<Rightarrow> (string \<times> string) list \<Rightarrow> error + 'n jsval" where
  "parse_entries h schema o' [] = Inr o'"
| "parse_entries h schema o' ((key, value) # entries) =
     (if value = '''' then parse_entries h schema o' entries
      else
        (case parseParams h o' schema key value of
           Inl e \<Rightarrow> Inl e
         | Inr o1 \<Rightarrow> parse_entries h schema o1 entries))"

text \<open>A path segment used as a property key: a number is written in decimal.\<close>

fun string_of_nat :: "nat \<Rightarrow> string" where
  "string_of_nat n =
     (if n < 10 then [char_of (48 + n)]
      else string_of_nat (n div 10) @ [char_of (48 + n mod 10)])"

declare string_of_nat.simps [simp del]

fun key_of_seg :: "pathseg \<Rightarrow> string" where
  "key_of_seg (PStr s) = s"
| "key_of_seg (PNum n) = string_of_nat n"

text \<open>\<open>const [key, index] = path\<close>; an absent \<open>key\<close> is \<open>undefined\<close>, the property \<open>'undefined'\<close>.\<close>

definition issue_key :: "issue \<Rightarrow> string" where
  "issue_key i = (case path i of [] \<Rightarrow> ''undefined'' | seg # _ \<Rightarrow> key_of_seg seg)"

definition issue_index :: "issue \<Rightarrow> pathseg option" where
  "issue_index i = (case path i of _ # seg # _ \<Rightarrow> Some seg | _ \<Rightarrow> None)"

text \<open>
  \<open>addError\<close>. The call \<open>errors.hasOwnProperty(key)\<close> finds the method on the prototype
  unless an entry named \<open>hasOwnProperty\<close> hides it; \<open>errors['__proto__'] = message\<close>
  creates no entry.
\<close>

definition addError ::
  "(string \<times> errval) list \<Rightarrow> string \<Rightarrow> string \<Rightarrow> error + (string \<times> errval) list" where
  "addError errors key msg =
     (case map_of errors ''hasOwnProperty'' of
        Some _ \<Rightarrow> Inl TypeError
      | None \<Rightarrow>
          (case map_of errors key of
             None \<Rightarrow> Inr (if key = ''__proto__'' then errors else obj_set errors key (Single msg))
           | Some (Single m) \<Rightarrow> Inr (obj_set errors key (Many [m, msg]))
           | Some (Many ms) \<Rightarrow> Inr (obj_set errors key (Many (ms @ [msg])))))"

text \<open>
  The loop over the issues. \<open>value = o[key]\<close> and, when the path has a second segment,
  \<open>value = value[index]\<close>, which throws when \<open>o[key]\<close> is undefined.
\<close>

fun add_issues ::
  "'n jsval \<Rightarrow> (string \<times> errval) list \<Rightarrow> issue list \<Rightarrow> error + (string \<times> errval) list" where
  "add_issues o' errors [] = Inr errors"
| "add_issues o' errors (i # issues) =
     (case get_prop o' (issue_key i) of
        Inl e \<Rightarrow> Inl e
      | Inr value \<Rightarrow>
          if issue_index i \<noteq> None \<and> value = None then Inl TypeError
          else
            (case addError errors (issue_key i) (message i) of
               Inl e \<Rightarrow> Inl e
             | Inr errors' \<Rightarrow> add_issues o' errors' issues))"

datatype 'd parse_result = Success 'd | Failure "(string \<times> errval) list"

definition getParamsInternal ::
  "('n, 'd) host \<Rightarrow> (string \<times> string) list \<Rightarrow> zod \<Rightarrow> error + 'd parse_result" where
  "getParamsInternal h params schema =
     (case parse_entries h schema (JObj []) params of
        Inl e \<Rightarrow> Inl e
      | Inr o' \<Rightarrow>
          (case safeParse h schema o' of
             Inr data \<Rightarrow> Inr (Success data)
           | Inl issues \<Rightarrow>
               (case add_issues o' [] issues of
                  Inl e \<Rightarrow> Inl e
                | Inr errors \<Rightarrow> Inr (Failure errors))))"

definition getParams ::
  "('n, 'd) host \<Rightarrow> (string \<times> string) list \<Rightarrow> zod \<Rightarrow> error + 'd parse_result" where
  "getParams h params schema = getParamsInternal h params schema"

definition getParamsOrFail ::
  "('n, 'd) host \<Rightarrow> (string \<times> string) list \<Rightarrow> zod \<Rightarrow> error + 'd" where
  "getParamsOrFail h params schema =
     (case getParamsInternal h params schema of
        Inl e \<Rightarrow> Inl e
      | Inr (Failure errors) \<Rightarrow> Inl (Thrown (JSON_stringify h errors))
      | Inr (Success data) \<Rightarrow> Inr data)"

section \<open>A host for the examples\<close>

text \<open>
  The examples are evaluated on a host in which \<open>Number\<close> reads a string of decimal
  digits, \<open>Date.parse\<close> rejects every string, the values in the place of a schema
  have none of the properties that the examples look up in them, the validator accepts
  every value and returns it, and \<open>JSON.stringify\<close> writes the keys of the mapping
  only.
\<close>

fun digits_value :: "string \<Rightarrow> int \<Rightarrow> int option" where
  "digits_value [] acc = Some acc"
| "digits_value (c # cs) acc =
     (if (48::nat) \<le> of_char c \<and> of_char c \<le> (57::nat)
      then digits_value cs (10 * acc + (int (of_char c) - 48)) else None)"

definition example_host :: "(int, int jsval) host" where
  "example_host =
     \<lparr>Number = (\<lambda>s. if s = [] then None else digits_value s 0),
      Date_parse = (\<lambda>s. None),
      member = (\<lambda>z k. None),
      safeParse = (\<lambda>schema o'. Inr o'),
      JSON_stringify = (\<lambda>errors. concat (map fst errors))\<rparr>"

text \<open>
  The validator of a strict Object with one field \<open>a\<close>, a preprocessing effect that
  replaces a missing value by the empty object, around an Object with a required string
  field \<open>b\<close>, on output objects that hold the unknown property \<open>x\<close>: the issue for
  \<open>b\<close> when the property \<open>a\<close> is missing, then the issue for the unknown property.
\<close>

definition unrecognized_key :: issue where
  "unrecognized_key =
     \<lparr>message = ''Unrecognized key(s) in object: '' @ [CHR 0x27, CHR ''x'', CHR 0x27],
      path = []\<rparr>"

definition strict_validator :: "zod \<Rightarrow> int jsval \<Rightarrow> issue list + int jsval" where
  "strict_validator schema o' =
     (case get_prop o' ''a'' of
        Inr (Some a) \<Rightarrow> Inl [unrecognized_key]
      | _ \<Rightarrow> Inl [\<lparr>message = ''Required'', path = [PStr ''a'', PStr ''b'']\<rparr>,
                   unrecognized_key])"


text \<open>
  The validator of an Object schema with the required field \<open>k\<close>, on the output
  objects of the examples: the data is the output object when it holds the property,
  the issue \<open>Required\<close> for the field otherwise.
\<close>

definition requires_field :: "string \<Rightarrow> zod \<Rightarrow> int jsval \<Rightarrow> issue list + int jsval" where
  "requires_field k schema o' =
     (case get_prop o' k of
        Inr (Some v) \<Rightarrow> Inr o'
      | _ \<Rightarrow> Inl [\<lparr>message = ''Required'', path = [PStr k]\<rparr>])"

section \<open>Notions used to state the claims\<close>

text \<open>The messages an entry of the error mapping holds, in order.\<close>

fun messages_of :: "errval \<Rightarrow> string list" where
  "messages_of (Single m) = [m]"
| "messages_of (Many ms) = ms"

definition messages_at :: "(string \<times> errval) list \<Rightarrow> string \<Rightarrow> string list" where
  "messages_at errors key = (case map_of errors key of None \<Rightarrow> [] | Some e \<Rightarrow> messages_of e)"

text \<open>The messages of the issues whose first path segment names \<open>key\<close>, in report order.\<close>

definition messages_for :: "string \<Rightarrow> issue list \<Rightarrow> string list" where
  "messages_for key issues = map message (filter (\<lambda>i. issue_key i = key) issues)"

text \<open>The entry that a list of messages makes: none, the message alone, or the sequence.\<close>

fun entry_of :: "string list \<Rightarrow> errval option" where
  "entry_of [] = None"
| "entry_of [m] = Some (Single m)"
| "entry_of ms = Some (Many ms)"

text \<open>Every entry of an error mapping is one message or a sequence of at least two.\<close>

definition errors_ok :: "(string \<times> errval) list \<Rightarrow> bool" where
  "errors_ok errors =
     (\<forall>key e. map_of errors key = Some e \<longrightarrow> entry_of (messages_of e) = Some e)"

text \<open>
  The leaf kinds, the kind that \<open>processDef\<close> reaches below the wrappers of a field
  schema, and whether an Array wrapper is among them.
\<close>

fun is_leaf :: "zod \<Rightarrow> bool" where
  "is_leaf ZodString = True"
| "is_leaf ZodLiteral = True"
| "is_leaf ZodNumber = True"
| "is_leaf ZodDate = True"
| "is_leaf ZodBoolean = True"
| "is_leaf ZodNativeEnum = True"
| "is_leaf ZodEnum = True"
| "is_leaf _ = False"

fun target :: "zod \<Rightarrow> zod" where
  "target (ZodOptional innerType) = target innerType"
| "target (ZodDefault innerType) = target innerType"
| "target (ZodArray element) = target element"
| "target (ZodEffects schema) = target schema"
| "target z = z"

fun array_kind :: "zod \<Rightarrow> bool" where
  "array_kind (ZodOptional innerType) = array_kind innerType"
| "array_kind (ZodDefault innerType) = array_kind innerType"
| "array_kind (ZodArray element) = True"
| "array_kind (ZodEffects schema) = array_kind schema"
| "array_kind z = False"

text \<open>The value of \<open>parsedValue\<close> in \<open>processDef\<close> for a leaf kind and a raw value.\<close>

definition parsedValue :: "('n, 'd) host \<Rightarrow> zod \<Rightarrow> string \<Rightarrow> 'n jsval" where
  "parsedValue h leaf value =
     (case leaf of
        ZodNumber \<Rightarrow> (case Number h value of None \<Rightarrow> JStr value | Some num \<Rightarrow> JNum num)
      | ZodDate \<Rightarrow> (case Date_parse h value of None \<Rightarrow> JStr value | Some date \<Rightarrow> JDate date)
      | ZodBoolean \<Rightarrow>
          JBool (if value = ''true'' then True else if value = ''false'' then False
                 else Boolean value)
      | _ \<Rightarrow> JStr value)"

text \<open>
  A schema whose shape resolution ends at \<open>null\<close>: an Object whose \<open>shape\<close> is
  \<open>null\<close> or an Effects whose inner schema is \<open>null\<close>, possibly under further Effects.
\<close>

fun null_shape :: "zod \<Rightarrow> bool" where
  "null_shape ZodObjectNull = True"
| "null_shape (ZodEffects schema) = (schema = Null \<or> null_shape schema)"
| "null_shape _ = False"

text \<open>
  Two results are alike when they are equal, or when both are the shape error: the
  message of the shape error quotes the key as it was given.
\<close>

definition shape_error :: "error + 'a \<Rightarrow> bool" where
  "shape_error r = (case r of Inl (ShapeError x) \<Rightarrow> True | _ \<Rightarrow> False)"

definition alike :: "error + 'a \<Rightarrow> error + 'a \<Rightarrow> bool" where
  "alike r1 r2 = (r1 = r2 \<or> (shape_error r1 \<and> shape_error r2))"

section \<open>Re-serialization\<close>

text \<open>
  Modelled from the spec: the repository has no function that writes a coerced output
  back into flat form. The spec names the keying convention only (dots for nesting, a
  trailing \<open>[]\<close> for array elements); the text of a number and of a date is left to
  two functions \<open>sn\<close> and \<open>sd\<close>, a string is written as it is, a boolean as \<open>true\<close> or
  \<open>false\<close>.
\<close>

fun show_value :: "('n \<Rightarrow> string) \<Rightarrow> ('n \<Rightarrow> string) \<Rightarrow> 'n jsval \<Rightarrow> string" where
  "show_value sn sd (JStr s) = s"
| "show_value sn sd (JNum n) = sn n"
| "show_value sn sd (JBool b) = (if b then ''true'' else ''false'')"
| "show_value sn sd (JDate d) = sd d"
| "show_value sn sd _ = []"

text \<open>
  Modelled from the spec: the keying convention of the flat form. A value below \<open>key\<close>
  is written under \<open>key\<close> itself when it is a scalar, under \<open>key[]\<close> for each element
  of an array, under \<open>key.name\<close> for each property of an object.
\<close>

fun flatten_at ::
  "('n \<Rightarrow> string) \<Rightarrow> ('n \<Rightarrow> string) \<Rightarrow> string \<Rightarrow> 'n jsval \<Rightarrow> (string \<times> string) list" where
  "flatten_at sn sd key (JArr xs) = concat (map (flatten_at sn sd (key @ ''[]'')) xs)"
| "flatten_at sn sd key (JObj m) =
     concat (map (\<lambda>(k, v). flatten_at sn sd (key @ ''.'' @ k) v) m)"
| "flatten_at sn sd key JBuiltin = []"
| "flatten_at sn sd key v = [(key, show_value sn sd v)]"


section \<open>The object that a flat form denotes\<close>

text \<open>
  A sequence of steps on a state, each of which may throw: the first error ends the run.
  The loop over the options of a Union in \<open>parseParams\<close> is such a run.
\<close>

definition run_all :: "('a \<Rightarrow> 's \<Rightarrow> 'e + 's) \<Rightarrow> 'a list \<Rightarrow> 'e + 's \<Rightarrow> 'e + 's" where
  "run_all g xs r = fold (\<lambda>x r. case r of Inl e \<Rightarrow> Inl e | Inr s \<Rightarrow> g x s) xs r"

text \<open>
  The alternatives of a schema: the shapes at which resolution ends, those of the
  options of a Union one after the other, in the order in which \<open>parseParams\<close> visits
  them for every key; \<open>None\<close> when a resolution fails.
\<close>

function alts :: "zod \<Rightarrow> shape list option" where
  "alts schema =
     (case find_shape (Inst schema) [] of
        Inl e \<Rightarrow> None
      | Inr shape \<Rightarrow>
          (case union_options shape of
             None \<Rightarrow> Some [shape]
           | Some options \<Rightarrow> map_option concat (those (map alts options))))"
  by pat_completeness auto
termination
  by (relation "measure size") (auto dest: union_option_smaller)

declare alts.simps [simp del]




text \<open>
  What the alternatives hold for a name: the truthy values of \<open>shape[k]\<close>, with which
  \<open>processDef\<close> is called one after the other for a key without a dot, and the values
  of \<open>shape[k]\<close> in the alternatives with \<open>k in shape\<close>, with which \<open>parseParams\<close>
  is called one after the other for a dotted key; \<open>None\<close> when a lookup throws.
\<close>

definition defs_at :: "('n, 'd) host \<Rightarrow> shape list \<Rightarrow> string \<Rightarrow> zod list option" where
  "defs_at h shs k =
     map_option (filter truthy)
       (those (map (\<lambda>sh. case shape_at h sh k of Inl e \<Rightarrow> None | Inr def \<Rightarrow> Some def) shs))"

definition subs_at :: "('n, 'd) host \<Rightarrow> shape list \<Rightarrow> string \<Rightarrow> zod list option" where
  "subs_at h shs k =
     map_option concat
       (those (map (\<lambda>sh. case shape_in h sh k of
                            Inl e \<Rightarrow> None
                          | Inr False \<Rightarrow> Some []
                          | Inr True \<Rightarrow>
                              (case shape_at h sh k of Inl e \<Rightarrow> None | Inr sub \<Rightarrow> Some [sub]))
                   shs))"

text \<open>
  The texts with a value that the flat form holds for a value of the output, in order;
  a value without such a text leaves no trace in the flat form.
\<close>

definition texts :: "('n \<Rightarrow> string) \<Rightarrow> ('n \<Rightarrow> string) \<Rightarrow> 'n jsval \<Rightarrow> string list" where
  "texts sn sd v = filter (\<lambda>s. s \<noteq> '''') (map snd (flatten_at sn sd [] v))"

text \<open>A scalar, or an array of scalars: its flat form addresses one field.\<close>

fun is_scalar :: "'n jsval \<Rightarrow> bool" where
  "is_scalar (JArr xs) = False"
| "is_scalar (JObj m) = False"
| "is_scalar JBuiltin = False"
| "is_scalar _ = True"

fun is_flat :: "'n jsval \<Rightarrow> bool" where
  "is_flat (JArr xs) = list_all is_scalar xs"
| "is_flat v = is_scalar v"

text \<open>The key under which the flat form writes a flat value of the property \<open>k\<close>.\<close>

fun flat_key :: "string \<Rightarrow> 'n jsval \<Rightarrow> string" where
  "flat_key k (JArr xs) = k @ ''[]''"
| "flat_key k v = k"

text \<open>
  What a field \<open>k\<close> that the output object does not hold yet comes to hold when the
  texts \<open>ss\<close> are routed to it one after the other, \<open>defs\<close> being the schemas that the
  alternatives give for \<open>k\<close>: when the first schema has an Array wrapper, and the output
  object inherits no member \<open>k\<close>, the array of the coerced values, one for each text and
  each schema; otherwise the value of the last text, coerced under the last schema.
\<close>

definition field_value :: "('n, 'd) host \<Rightarrow> zod list \<Rightarrow> string \<Rightarrow> string list \<Rightarrow> 'n jsval" where
  "field_value h defs k ss =
     (if \<not> inherited k \<and> array_kind (hd defs)
      then JArr (concat (map (\<lambda>s. map (\<lambda>def. parsedValue h (target def) s) defs) ss))
      else parsedValue h (target (last defs)) (last ss))"

text \<open>
  The properties of the output object that parsing builds from the flat form of an
  object with the properties \<open>m\<close>, for a schema; \<open>None\<close> where this is not
  described. A property without a text is dropped. A scalar or an array of scalars is
  routed to the field that its key names once the first marker is removed: it is
  dropped when no alternative of the schema has a truthy value under that name, and
  becomes the value of the field when the alternatives have schemas of leaf kinds
  there. An object with a text becomes the object built from its own flat form for the
  schemas that the alternatives give for its name. The names of these properties have
  no dot, and no two of them are routed to the same name.
\<close>

function rebuild ::
  "('n, 'd) host \<Rightarrow> ('n \<Rightarrow> string) \<Rightarrow> ('n \<Rightarrow> string) \<Rightarrow> zod \<Rightarrow>
   (string \<times> 'n jsval) list \<Rightarrow> (string \<times> 'n jsval) list option" where
  "rebuild h sn sd schema [] = Some []"
| "rebuild h sn sd schema ((k, v) # m) =
     (case rebuild h sn sd schema m of
        None \<Rightarrow> None
      | Some m2 \<Rightarrow>
          if texts sn sd v = [] then Some m2
          else if includes_dot k then None
          else
            (case alts schema of
               None \<Rightarrow> None
             | Some shs \<Rightarrow>
                 (case v of
                    JObj m' \<Rightarrow>
                      if shs = [] \<or> inherited k \<or> k \<in> fst ` set m2 then None
                      else
                        (case subs_at h shs k of
                           None \<Rightarrow> None
                         | Some subs \<Rightarrow>
                             (case rebuild h sn sd (ZodUnion subs) m' of
                                None \<Rightarrow> None
                              | Some m2' \<Rightarrow> Some ((k, JObj m2') # m2)))
                  | _ \<Rightarrow>
                      if \<not> is_flat v then None
                      else
                        (case defs_at h shs (replace_brackets (flat_key k v)) of
                           None \<Rightarrow> None
                         | Some defs \<Rightarrow>
                             if defs = [] then Some m2
                             else if replace_brackets (flat_key k v) = ''__proto__''
                                     \<or> replace_brackets (flat_key k v) \<in> fst ` set m2
                                     \<or> \<not> list_all (\<lambda>def. is_leaf (target def)) defs
                             then None
                             else Some ((replace_brackets (flat_key k v),
                                         field_value h defs (replace_brackets (flat_key k v))
                                           (texts sn sd v)) # m2)))))"
  by pat_completeness auto
termination
  by (relation "measure (\<lambda>(h, sn, sd, schema, m). size (JObj m))") auto


section \<open>Facts about shape resolution\<close>

lemma find_shape_Fields [simp]: "find_shape (Fields fs) key = Inr (Fields fs)"
  by (simp add: find_shape.simps object_or_effects_def)

lemma find_shape_Object [simp]: "find_shape (Inst (ZodObject fs)) key = Inr (Fields fs)"
  by (simp add: find_shape.simps [of "Inst (ZodObject fs)"] object_or_effects_def next_shape_def)

lemma find_shape_ObjectNull [simp]: "find_shape (Inst ZodObjectNull) key = Inl (ShapeError key)"
  by (simp add: find_shape.simps [of "Inst ZodObjectNull"] object_or_effects_def next_shape_def)

lemma find_shape_Effects:
  "find_shape (Inst (ZodEffects schema)) key =
     (if schema = Null then Inl (ShapeError key) else find_shape (Inst schema) key)"
  by (simp add: find_shape.simps [of "Inst (ZodEffects schema)"] object_or_effects_def
      next_shape_def)

lemma find_shape_other:
  "object_or_effects (Inst z) = None \<Longrightarrow> find_shape (Inst z) key = Inr (Inst z)"
  by (simp add: find_shape.simps [of "Inst z"])

text \<open>The key only names the error: the shape found, if any, is the same for every key.\<close>

lemma find_shape_key:
  "find_shape sh key =
     (case find_shape sh [] of Inl e \<Rightarrow> Inl (ShapeError key) | Inr sh' \<Rightarrow> Inr sh')"
proof (induction sh "[] :: string" rule: find_shape.induct)
  case (1 sh)
  show ?case
  proof (cases "object_or_effects sh")
    case None
    then show ?thesis by (simp add: find_shape.simps [of sh])
  next
    case (Some z)
    show ?thesis
    proof (cases "next_shape z")
      case None
      with Some show ?thesis by (simp add: find_shape.simps [of sh])
    next
      case (Some sh1)
      from "1" [OF \<open>object_or_effects sh = Some z\<close> Some]
      show ?thesis
        using \<open>object_or_effects sh = Some z\<close> Some by (simp add: find_shape.simps [of sh])
    qed
  qed
qed

lemma find_shape_Inr_key: "find_shape sh key = Inr sh' \<Longrightarrow> find_shape sh key' = Inr sh'"
  using find_shape_key [of sh key] find_shape_key [of sh key']
  by (auto split: sum.splits)

lemma find_shape_Inl: "find_shape sh key = Inl e \<Longrightarrow> e = ShapeError key"
  using find_shape_key [of sh key] by (auto split: sum.splits)

lemma find_shape_Inl_key: "find_shape sh key = Inl e \<Longrightarrow> find_shape sh key' = Inl (ShapeError key')"
  using find_shape_key [of sh key] find_shape_key [of sh key']
  by (auto split: sum.splits)


text \<open>Shape resolution fails exactly on the schemas whose shape is \<open>null\<close>.\<close>

lemma find_shape_null:
  "find_shape (Inst schema) key = Inl (ShapeError key) \<longleftrightarrow> null_shape schema"
proof (induction schema)
  case (ZodEffects schema)
  then show ?case by (cases "schema = Null") (simp_all add: find_shape_Effects)
qed (simp_all add: find_shape_other object_or_effects_def)

section \<open>Unfolding parseParams\<close>

lemma replace_brackets_none: "\<not> includes_brackets key \<Longrightarrow> replace_brackets key = key"
  by (induction key rule: replace_brackets.induct) (auto split: if_splits)

lemma parseParams_error:
  "find_shape (Inst schema) key = Inl e \<Longrightarrow> parseParams h o' schema key value = Inl e"
  by (simp add: parseParams.simps [of h o' schema key "value"])

lemma parseParams_union:
  "find_shape (Inst schema) key = Inr shape \<Longrightarrow> union_options shape = Some options \<Longrightarrow>
   parseParams h o' schema key value =
     fold (\<lambda>option r. case r of Inl e \<Rightarrow> Inl e | Inr o1 \<Rightarrow> parseParams h o1 option key value)
       options (Inr o')"
  by (simp add: parseParams.simps [of h o' schema key "value"])

lemma parseParams_plain:
  assumes "find_shape (Inst schema) key = Inr shape" "\<not> includes_dot key"
    and "union_options shape = None"
  shows "parseParams h o' schema key value =
     (case shape_at h shape (replace_brackets key) of
        Inl e \<Rightarrow> Inl e
      | Inr def \<Rightarrow>
          if truthy def then processDef h def o' (replace_brackets key) value else Inr o')"
proof -
  have k: "(if includes_brackets key then replace_brackets key else key) = replace_brackets key"
    by (simp add: replace_brackets_none)
  show ?thesis
    using assms
    by (simp add: parseParams.simps [of h o' schema key "value"] k Let_def)
qed

lemma parseParams_dotted:
  assumes "find_shape (Inst schema) key = Inr shape" "includes_dot key"
    and "union_options shape = None"
  shows "parseParams h o' schema key value =
     (case get_prop o' (parentProp_of key) of
        Inl e \<Rightarrow> Inl e
      | Inr cur \<Rightarrow>
          (let child = (case cur of None \<Rightarrow> JObj [] | Some v \<Rightarrow> v) in
           case set_prop o' (parentProp_of key) child of
             Inl e \<Rightarrow> Inl e
           | Inr o1 \<Rightarrow>
               (case shape_in h shape (parentProp_of key) of
                  Inl e \<Rightarrow> Inl e
                | Inr False \<Rightarrow> Inr o1
                | Inr True \<Rightarrow>
                    (case shape_at h shape (parentProp_of key) of
                       Inl e \<Rightarrow> Inl e
                     | Inr sub \<Rightarrow>
                         (case parseParams h child sub (rest_of key) value of
                            Inl e \<Rightarrow> Inl e
                          | Inr child' \<Rightarrow> set_prop o1 (parentProp_of key) child')))))"
  using assms
  by (simp add: parseParams.simps [of h o' schema key "value"])

section \<open>Lemmas on the entry loop\<close>

lemma parse_entries_filter:
  "parse_entries h schema o' entries =
   parse_entries h schema o' (filter (\<lambda>(key, value). value \<noteq> '''') entries)"
  by (induction h schema o' entries rule: parse_entries.induct) (auto split: sum.splits)

section \<open>Aggregation of the issues\<close>

lemma map_of_obj_set: "map_of (obj_set m k v) k' = (if k' = k then Some v else map_of m k')"
  by (induction m k v rule: obj_set.induct) auto

lemma entry_of_Many: "entry_of ms = Some (Many ms') \<Longrightarrow> entry_of (ms @ [m]) = Some (Many (ms' @ [m]))"
  by (induction ms rule: entry_of.induct) auto

lemma addError_messages:
  assumes "addError errors key msg = Inr errors'" "key \<noteq> ''__proto__''"
  shows "messages_at errors' k = (if k = key then messages_at errors key @ [msg] else messages_at errors k)"
  using assms
  by (auto simp: addError_def messages_at_def map_of_obj_set split: option.splits errval.splits)

lemma addError_ok:
  assumes ae: "addError errors key msg = Inr errors'" and ok: "errors_ok errors"
  shows "errors_ok errors'"
  unfolding errors_ok_def
proof (intro allI impI)
  fix k e
  assume k: "map_of errors' k = Some e"
  have old: "entry_of (messages_of e0) = Some e0" if "map_of errors k0 = Some e0" for k0 e0
    using ok that by (auto simp: errors_ok_def)
  show "entry_of (messages_of e) = Some e"
  proof (cases "map_of errors key")
    case None
    with ae k old show ?thesis
      by (auto simp: addError_def map_of_obj_set split: option.splits if_splits)
  next
    case (Some e0)
    show ?thesis
    proof (cases e0)
      case (Single m)
      with Some ae k old show ?thesis
        by (auto simp: addError_def map_of_obj_set split: option.splits if_splits)
    next
      case (Many ms)
      with Some old have "entry_of ms = Some (Many ms)" by fastforce
      then have "entry_of (ms @ [msg]) = Some (Many (ms @ [msg]))" by (rule entry_of_Many)
      with Many Some ae k old show ?thesis
        by (auto simp: addError_def map_of_obj_set split: option.splits if_splits)
    qed
  qed
qed

lemma add_issues_messages:
  assumes "add_issues o' errors issues = Inr errors'" "k \<noteq> ''__proto__''"
  shows "messages_at errors' k = messages_at errors k @ messages_for k issues"
  using assms
proof (induction o' errors issues rule: add_issues.induct)
  case (1 o' errors)
  then show ?case by (simp add: messages_for_def)
next
  case (2 o' errors i issues)
  from "2.prems"(1) obtain v errors1 where
    gp: "get_prop o' (issue_key i) = Inr v" and
    nt: "\<not> (issue_index i \<noteq> None \<and> v = None)" and
    ae: "addError errors (issue_key i) (message i) = Inr errors1" and
    rest: "add_issues o' errors1 issues = Inr errors'"
    by (auto split: sum.splits if_splits)
  have "messages_at errors' k = messages_at errors1 k @ messages_for k issues"
    using "2.IH" [OF gp nt ae rest "2.prems"(2)] .
  moreover have "messages_at errors1 k = messages_at errors k @ (if issue_key i = k then [message i] else [])"
  proof (cases "issue_key i = ''__proto__''")
    case True
    then show ?thesis using ae "2.prems"(2)
      by (auto simp: addError_def messages_at_def map_of_obj_set split: option.splits errval.splits)
  next
    case False
    then show ?thesis using addError_messages [OF ae False, of k] by auto
  qed
  ultimately show ?case by (auto simp: messages_for_def)
qed

lemma add_issues_ok:
  assumes "add_issues o' errors issues = Inr errors'" "errors_ok errors"
  shows "errors_ok errors'"
  using assms
  by (induction o' errors issues rule: add_issues.induct)
     (auto split: sum.splits if_splits dest: addError_ok)

lemma add_issues_aggregates:
  assumes "add_issues o' [] issues = Inr errors" "k \<noteq> ''__proto__''"
  shows "map_of errors k = entry_of (messages_for k issues)"
proof -
  have m: "messages_at errors k = messages_for k issues"
    using add_issues_messages [OF assms] by (simp add: messages_at_def)
  have ok: "errors_ok errors"
    using add_issues_ok [OF assms(1)] by (simp add: errors_ok_def)
  show ?thesis
  proof (cases "map_of errors k")
    case None
    with m show ?thesis by (simp add: messages_at_def)
  next
    case (Some e)
    with ok have "entry_of (messages_of e) = Some e" by (simp add: errors_ok_def)
    with m Some show ?thesis by (simp add: messages_at_def)
  qed
qed

section \<open>Keys that are routed alike\<close>

lemma includes_brackets_marker: "includes_brackets (pre @ CHR ''['' # CHR '']'' # post)"
  by (induction pre rule: includes_brackets.induct) auto

lemma replace_brackets_marker:
  "\<not> includes_brackets pre \<Longrightarrow> replace_brackets (pre @ CHR ''['' # CHR '']'' # post) = pre @ post"
  by (induction pre rule: includes_brackets.induct) (auto split: if_splits)

lemma alike_refl [simp]: "alike r r"
  by (simp add: alike_def)

lemma alike_shape_errors [simp]: "alike (Inl (ShapeError x)) (Inl (ShapeError y))"
  by (simp add: alike_def shape_error_def)

lemma alike_Inr: "alike r1 r2 \<Longrightarrow> r1 = Inr a \<or> r2 = Inr a \<Longrightarrow> r1 = r2"
  by (auto simp: alike_def shape_error_def split: sum.splits error.splits)

lemma alike_cases:
  assumes "alike r1 r2"
  obtains "r1 = r2" | x y where "r1 = Inl (ShapeError x)" "r2 = Inl (ShapeError y)"
  using assms by (auto simp: alike_def shape_error_def split: sum.splits error.splits)

lemma fold_alike:
  assumes "\<And>option o1. option \<in> set options \<Longrightarrow> alike (f option o1) (g option o1)"
    and "alike r1 r2"
  shows "alike (fold (\<lambda>option r. case r of Inl e \<Rightarrow> Inl e | Inr o1 \<Rightarrow> f option o1) options r1)
               (fold (\<lambda>option r. case r of Inl e \<Rightarrow> Inl e | Inr o1 \<Rightarrow> g option o1) options r2)"
  using assms
proof (induction options arbitrary: r1 r2)
  case Nil
  then show ?case by simp
next
  case (Cons a options)
  have "alike (case r1 of Inl e \<Rightarrow> Inl e | Inr o1 \<Rightarrow> f a o1)
              (case r2 of Inl e \<Rightarrow> Inl e | Inr o1 \<Rightarrow> g a o1)"
    using Cons.prems(2)
  proof (cases rule: alike_cases)
    case 1
    then show ?thesis using Cons.prems(1) [of a] by (auto split: sum.splits)
  next
    case (2 x y)
    then show ?thesis by simp
  qed
  then show ?case using Cons by simp
qed

lemma parseParams_same_field:
  assumes "\<not> includes_dot k1" "\<not> includes_dot k2" "replace_brackets k1 = replace_brackets k2"
  shows "alike (parseParams h o' schema k1 value) (parseParams h o' schema k2 value)"
proof (induction schema arbitrary: o' rule: measure_induct_rule [of size])
  case (less schema)
  show ?case
  proof (cases "find_shape (Inst schema) k1")
    case (Inl e)
    have "parseParams h o' schema k1 value = Inl (ShapeError k1)"
      using parseParams_error [OF Inl] find_shape_Inl [OF Inl] by simp
    moreover have "parseParams h o' schema k2 value = Inl (ShapeError k2)"
      using parseParams_error [OF find_shape_Inl_key [OF Inl]] .
    ultimately show ?thesis by simp
  next
    case (Inr shape)
    note fs1 = Inr
    have fs2: "find_shape (Inst schema) k2 = Inr shape"
      using find_shape_Inr_key [OF fs1] .
    show ?thesis
    proof (cases "union_options shape")
      case (Some options)
      show ?thesis
        unfolding parseParams_union [OF fs1 Some] parseParams_union [OF fs2 Some]
        by (rule fold_alike) (rule less, rule union_option_smaller [OF fs1 Some], simp_all)
    next
      case None
      show ?thesis
        unfolding parseParams_plain [OF fs1 assms(1) None] parseParams_plain [OF fs2 assms(2) None]
            assms(3) by simp
    qed
  qed
qed

lemma parentProp_of_segment:
  "\<not> includes_dot seg \<Longrightarrow> parentProp_of (seg @ CHR ''.'' # r) = seg"
  by (induction seg) (auto simp: parentProp_of_def includes_dot_def)

lemma rest_of_segment:
  "\<not> includes_dot seg \<Longrightarrow> rest_of (seg @ CHR ''.'' # r) = r"
  by (induction seg) (auto simp: rest_of_def includes_dot_def)

lemma includes_dot_segment: "includes_dot (seg @ CHR ''.'' # r)"
  by (simp add: includes_dot_def)

lemma parseParams_same_rest:
  assumes "\<not> includes_dot seg"
    and "\<And>child sub. alike (parseParams h child sub k1 value) (parseParams h child sub k2 value)"
  shows "alike (parseParams h o' schema (seg @ CHR ''.'' # k1) value)
               (parseParams h o' schema (seg @ CHR ''.'' # k2) value)"
proof (induction schema arbitrary: o' rule: measure_induct_rule [of size])
  case (less schema)
  let ?K1 = "seg @ CHR ''.'' # k1" and ?K2 = "seg @ CHR ''.'' # k2"
  show ?case
  proof (cases "find_shape (Inst schema) ?K1")
    case (Inl e)
    have "parseParams h o' schema ?K1 value = Inl (ShapeError ?K1)"
      using parseParams_error [OF Inl] find_shape_Inl [OF Inl] by simp
    moreover have "parseParams h o' schema ?K2 value = Inl (ShapeError ?K2)"
      using parseParams_error [OF find_shape_Inl_key [OF Inl]] .
    ultimately show ?thesis by simp
  next
    case (Inr shape)
    note fs1 = Inr
    have fs2: "find_shape (Inst schema) ?K2 = Inr shape"
      using find_shape_Inr_key [OF fs1] .
    show ?thesis
    proof (cases "union_options shape")
      case (Some options)
      show ?thesis
        unfolding parseParams_union [OF fs1 Some] parseParams_union [OF fs2 Some]
        by (rule fold_alike) (rule less, rule union_option_smaller [OF fs1 Some], simp_all)
    next
      case None
      have step: "alike (case r1 of Inl e \<Rightarrow> Inl e | Inr child' \<Rightarrow> set_prop o1 seg child')
                        (case r2 of Inl e \<Rightarrow> Inl e | Inr child' \<Rightarrow> set_prop o1 seg child')"
        if "alike r1 r2" for r1 r2 :: "error + 'a jsval" and o1
        using that by (cases rule: alike_cases) auto
      show ?thesis
      proof (cases "get_prop o' seg")
        case (Inl e)
        then show ?thesis
          unfolding parseParams_dotted [OF fs1 includes_dot_segment None]
            parseParams_dotted [OF fs2 includes_dot_segment None]
            parentProp_of_segment [OF assms(1)] rest_of_segment [OF assms(1)]
          by simp
      next
        case (Inr cur)
        define child where "child = (case cur of None \<Rightarrow> JObj [] | Some v \<Rightarrow> v)"
        show ?thesis
        proof (cases "set_prop o' seg child")
          case (Inl e)
          then show ?thesis
            unfolding parseParams_dotted [OF fs1 includes_dot_segment None]
              parseParams_dotted [OF fs2 includes_dot_segment None]
              parentProp_of_segment [OF assms(1)] rest_of_segment [OF assms(1)]
            using \<open>get_prop o' seg = Inr cur\<close> by (simp add: child_def)
        next
          case (Inr o1)
          note sp = Inr
          show ?thesis
          proof (cases "shape_in h shape seg")
            case (Inl e)
            then show ?thesis
              unfolding parseParams_dotted [OF fs1 includes_dot_segment None]
                parseParams_dotted [OF fs2 includes_dot_segment None]
                parentProp_of_segment [OF assms(1)] rest_of_segment [OF assms(1)]
              using \<open>get_prop o' seg = Inr cur\<close> sp by (simp add: child_def)
          next
            case (Inr b)
            note si = Inr
            show ?thesis
            proof (cases "shape_at h shape seg")
              case (Inl e)
              then show ?thesis
                unfolding parseParams_dotted [OF fs1 includes_dot_segment None]
                  parseParams_dotted [OF fs2 includes_dot_segment None]
                  parentProp_of_segment [OF assms(1)] rest_of_segment [OF assms(1)]
                using \<open>get_prop o' seg = Inr cur\<close> sp si by (simp add: child_def split: bool.splits)
            next
              case (Inr sub)
              show ?thesis
                unfolding parseParams_dotted [OF fs1 includes_dot_segment None]
                  parseParams_dotted [OF fs2 includes_dot_segment None]
                  parentProp_of_segment [OF assms(1)] rest_of_segment [OF assms(1)]
                using \<open>get_prop o' seg = Inr cur\<close> sp si Inr
                  step [OF assms(2) [of child sub], of o1]
                by (simp add: child_def split: bool.splits)
            qed
          qed
        qed
      qed
    qed
  qed
qed

lemma parseParams_same_path:
  assumes "\<forall>seg \<in> set segs. \<not> includes_dot seg"
    and "\<not> includes_dot k1" "\<not> includes_dot k2" "replace_brackets k1 = replace_brackets k2"
  shows "alike (parseParams h o' schema (concat (map (\<lambda>seg. seg @ ''.'') segs) @ k1) value)
               (parseParams h o' schema (concat (map (\<lambda>seg. seg @ ''.'') segs) @ k2) value)"
  using assms(1)
proof (induction segs arbitrary: o' schema)
  case Nil
  show ?case using parseParams_same_field [OF assms(2-4)] by simp
next
  case (Cons seg segs)
  have "alike (parseParams h o' schema (seg @ CHR ''.'' # (concat (map (\<lambda>seg. seg @ ''.'') segs) @ k1)) value)
              (parseParams h o' schema (seg @ CHR ''.'' # (concat (map (\<lambda>seg. seg @ ''.'') segs) @ k2)) value)"
    by (rule parseParams_same_rest) (use Cons in auto)
  then show ?case by simp
qed

section \<open>Keys that name no field\<close>

text \<open>
  A key without a dot that, once the marker is removed, names neither a field nor an
  inherited member leaves the output object as it is. A dotted key whose first segment
  names neither only makes sure that the output object has a property of that name.
\<close>

lemma union_options_Fields [simp]: "union_options (Fields fs) = None"
  by (simp add: union_options_def)

lemma not_inherited_proto: "\<not> inherited k \<Longrightarrow> k \<noteq> ''__proto__''"
  by (auto simp: inherited_def object_prototype_names_def)

lemma unknown_key_ignored:
  assumes "find_shape (Inst schema) key = Inr (Fields fs)" and "\<not> includes_dot key"
    and "map_of fs (replace_brackets key) = None" and "\<not> inherited (replace_brackets key)"
  shows "parseParams h o' schema key value = Inr o'"
  using assms(3,4)
  by (simp add: parseParams_plain [OF assms(1,2) union_options_Fields] shape_at_def truthy_def)

lemma unknown_parent_ignored:
  assumes "find_shape (Inst schema) key = Inr (Fields fs)" and "includes_dot key"
    and "map_of fs (parentProp_of key) = None" and "\<not> inherited (parentProp_of key)"
  shows "parseParams h (JObj m) schema key value =
     Inr (JObj (obj_set m (parentProp_of key)
            (case map_of m (parentProp_of key) of None \<Rightarrow> JObj [] | Some x \<Rightarrow> x)))"
proof -
  have np: "parentProp_of key \<noteq> ''__proto__''" using assms(4) by (rule not_inherited_proto)
  have og: "obj_get m (parentProp_of key) = map_of m (parentProp_of key)"
    using assms(4) by (auto simp: obj_get_def split: option.splits)
  show ?thesis
    unfolding parseParams_dotted [OF assms(1,2) union_options_Fields]
    using assms(3,4) np
    by (simp add: get_prop_def og set_prop_def shape_in_def)
qed

section \<open>An issue with an empty path\<close>

text \<open>
  When the parse returns the error mapping of a failed validation, the entry under
  \<open>undefined\<close> is made of the messages of the issues with an empty path or with the
  first segment \<open>undefined\<close>, in report order.
\<close>

lemma empty_path_recorded:
  assumes "getParamsInternal h params schema = Inr (Failure errors)"
    and "parse_entries h schema (JObj []) params = Inr o'"
    and "safeParse h schema o' = Inl issues"
    and "i \<in> set issues" and "path i = []"
  shows "issue_key i = ''undefined''
    \<and> message i \<in> set (messages_for ''undefined'' issues)
    \<and> map_of errors ''undefined'' = entry_of (messages_for ''undefined'' issues)"
proof -
  have key: "issue_key i = ''undefined''"
    using assms(5) by (simp add: issue_key_def)
  have ai: "add_issues o' [] issues = Inr errors"
    using assms(1-3) by (simp add: getParamsInternal_def split: sum.splits)
  have "message i \<in> set (messages_for ''undefined'' issues)"
    using assms(4) key by (auto simp: messages_for_def)
  moreover have "map_of errors ''undefined'' = entry_of (messages_for ''undefined'' issues)"
    by (rule add_issues_aggregates [OF ai]) simp
  ultimately show ?thesis using key by simp
qed

section \<open>Runs and alternatives\<close>

text \<open>
  For every key \<open>parseParams\<close> visits the alternatives of the schema one after the
  other, and does for each what it does for a schema that resolves to it.
\<close>

lemma run_all_Nil [simp]: "run_all g [] r = r"
  by (simp add: run_all_def)

lemma run_all_Cons:
  "run_all g (x # xs) r = run_all g xs (case r of Inl e \<Rightarrow> Inl e | Inr s \<Rightarrow> g x s)"
  by (simp add: run_all_def)

lemma run_all_Inl [simp]: "run_all g xs (Inl e) = Inl e"
  by (induction xs) (simp_all add: run_all_Cons)

lemma run_all_Cons_Inr [simp]: "run_all g (x # xs) (Inr s) = run_all g xs (g x s)"
  by (simp add: run_all_Cons)













section \<open>Pairs routed to a field\<close>

text \<open>
  A key without a dot calls \<open>processDef\<close> once for each alternative that has a truthy
  value under the name. A field that the output object does not hold yet collects the
  values in an array when the first of these calls creates one, and keeps the value of
  the last call otherwise.
\<close>

lemma defs_at_Nil [simp]: "defs_at h [] k = Some []"
  by (simp add: defs_at_def)











lemma obj_get_set [simp]: "obj_get (obj_set m k v) k = Some v"
  by (simp add: obj_get_def map_of_obj_set)












section \<open>Pairs routed below a property\<close>

text \<open>
  A dotted key makes sure that the output object has the property, and parses the rest
  of the key into it for each alternative that has the name, as for the Union of the
  schemas found there.
\<close>

lemma subs_at_Nil [simp]: "subs_at h [] k = Some []"
  by (simp add: subs_at_def)









section \<open>The pairs of a flat form\<close>












section \<open>Parsing a flat form\<close>




lemma alts_Object [simp]: "alts (ZodObject fs) = Some [Fields fs]"
  by (simp add: alts.simps)

lemma alts_ZodUnion: "alts (ZodUnion options) = map_option concat (those (map alts options))"
  by (simp add: alts.simps [of "ZodUnion options"] find_shape_other object_or_effects_def
      union_options_def)


text \<open>
  Three data that \<open>rebuild\<close> does not give back: an array that two options of a Union
  have filled, an empty object, and a property whose name holds the marker.
\<close>

lemma rebuild_examples:
  "rebuild example_host (\<lambda>n. ''0'') (\<lambda>d. ''0'')
     (ZodUnion [ZodObject [(''t'', ZodArray ZodString)],
                ZodObject [(''t'', ZodArray ZodString), (''u'', ZodString)]])
     [(''t'', JArr [JStr ''a'', JStr ''a''])]
   = Some [(''t'', JArr [JStr ''a'', JStr ''a'', JStr ''a'', JStr ''a''])]
   \<and> rebuild (example_host\<lparr>safeParse := requires_field ''address''\<rparr>) (\<lambda>n. ''0'') (\<lambda>d. ''0'')
       (ZodObject [(''address'', ZodObject [(''city'', ZodOptional ZodString)])])
       [(''address'', JObj [])]
     = Some []
   \<and> rebuild (example_host\<lparr>safeParse := requires_field ''a[]''\<rparr>) (\<lambda>n. ''0'') (\<lambda>d. ''0'')
       (ZodObject [(''a[]'', ZodString)]) [(''a[]'', JStr ''x'')]
     = Some []"
  by code_simp

section \<open>The claims\<close>

text \<open>
  C1 fails on the code: the key \<open>constructor\<close> names no field of the schema, but
  \<open>shape['constructor']\<close> is the function \<open>Object\<close> that the field mapping inherits,
  so \<open>processDef\<close> is called with it and throws. Without the pair the call succeeds.
  A key that names neither a field nor an inherited member is ignored, as
  \<open>unknown_key_ignored\<close> and \<open>unknown_parent_ignored\<close> show.
\<close>

theorem C1_failing_input:
  "getParamsInternal example_host [(''constructor'', ''x'')]
     (ZodObject [(''name'', ZodOptional ZodString)]) = Inl TypeError
   \<and> getParamsInternal example_host []
     (ZodObject [(''name'', ZodOptional ZodString)]) = Inr (Success (JObj []))"
  by (simp add: getParamsInternal_def example_host_def parseParams.simps union_options_def
      includes_dot_def shape_at_def truthy_def inherited_def object_prototype_names_def)

text \<open>
  C2. A pair whose value is the empty string is skipped before \<open>parseParams\<close> sees it:
  the output object built from the entries, and the result of the whole call, are those
  of the entries without such pairs. For the entries \<open>{name: ''}\<close> the output object
  handed to the validator is the empty object, whatever the schema, and the result is
  \<open>Success\<close> with the validator's data for the empty object.
\<close>

theorem C2_empty_values_excluded:
  "parse_entries h schema o' entries =
     parse_entries h schema o' (filter (\<lambda>(key, value). value \<noteq> '''') entries)
   \<and> getParamsInternal h entries schema =
     getParamsInternal h (filter (\<lambda>(key, value). value \<noteq> '''') entries) schema
   \<and> parse_entries h schema (JObj []) [(''name'', '''')] = Inr (JObj [])
   \<and> (safeParse h schema (JObj []) = Inr data \<longrightarrow>
        getParamsInternal h [(''name'', '''')] schema = Inr (Success data))"
proof -
  have "parse_entries h schema o' entries =
     parse_entries h schema o' (filter (\<lambda>(key, value). value \<noteq> '''') entries)" for o'
    by (rule parse_entries_filter)
  then show ?thesis
    by (simp add: getParamsInternal_def)
qed

theorem C2_empty_values_excluded_witness:
  "safeParse example_host (ZodObject [(''name'', ZodOptional ZodString)]) (JObj []) = Inr (JObj [])
   \<and> getParamsInternal example_host [(''name'', '''')]
        (ZodObject [(''name'', ZodOptional ZodString)]) = Inr (Success (JObj []))"
  using C2_empty_values_excluded [of example_host "ZodObject [(''name'', ZodOptional ZodString)]"
      "JObj []" "[]" "JObj []"]
  by (simp add: example_host_def)

text \<open>
  C3 fails on the code. The branch of \<open>processDef\<close> for an Array creates the array
  only when \<open>o[key] === undefined\<close>, and returns with the comment that the recursive
  call will add to the array. For the Array field \<open>valueOf\<close> the test finds the method
  that the output object inherits (the slip of C1, here on the output object): no array
  is created and the last value overwrites the first. For the Array field \<open>tags\<close> the
  test finds the object that the dotted key \<open>tags.x\<close> has left: again the last value
  overwrites. In both runs the field holds the string \<open>b\<close> where the two values were to
  be appended, and a validator that expects an array reports a failure.
\<close>

theorem C3_failing_input:
  "parse_entries example_host (ZodObject [(''valueOf'', ZodArray ZodString)]) (JObj [])
     [(''valueOf'', ''a''), (''valueOf'', ''b'')]
   = Inr (JObj [(''valueOf'', JStr ''b'')])
   \<and> parse_entries example_host (ZodObject [(''tags'', ZodArray ZodString)]) (JObj [])
     [(''tags.x'', ''1''), (''tags[]'', ''a''), (''tags[]'', ''b'')]
   = Inr (JObj [(''tags'', JStr ''b'')])
   \<and> getParamsInternal
       (example_host\<lparr>safeParse :=
          (\<lambda>schema o'. case o' of
             JObj [(k, JArr xs)] \<Rightarrow> Inr o'
           | _ \<Rightarrow> Inl [\<lparr>message = ''Expected array, received string'',
                        path = [PStr ''valueOf'']\<rparr>])\<rparr>)
       [(''valueOf'', ''a''), (''valueOf'', ''b'')]
       (ZodObject [(''valueOf'', ZodArray ZodString)])
   = Inr (Failure [(''valueOf'', Single ''Expected array, received string'')])"
  by code_simp

text \<open>
  C4. Under a Boolean leaf the value handed to the store is \<open>true\<close> for the text
  \<open>true\<close>, \<open>false\<close> for the text \<open>false\<close>, and \<open>true\<close> for every other non-empty
  string.
\<close>

theorem C4_boolean_coercion:
  "(value = ''true'' \<longrightarrow> processDef h ZodBoolean o' key value = store o' key (JBool True))
   \<and> (value = ''false'' \<longrightarrow> processDef h ZodBoolean o' key value = store o' key (JBool False))
   \<and> (value \<noteq> '''' \<and> value \<noteq> ''true'' \<and> value \<noteq> ''false'' \<longrightarrow>
        processDef h ZodBoolean o' key value = store o' key (JBool True))"
  by (simp add: Boolean_def)

theorem C4_boolean_coercion_witness:
  "processDef example_host ZodBoolean (JObj []) ''ok'' ''true'' = Inr (JObj [(''ok'', JBool True)])
   \<and> processDef example_host ZodBoolean (JObj []) ''ok'' ''false''
       = Inr (JObj [(''ok'', JBool False)])
   \<and> processDef example_host ZodBoolean (JObj []) ''ok'' ''yes''
       = Inr (JObj [(''ok'', JBool True)])"
  using C4_boolean_coercion [of "''true''" example_host "JObj []" "''ok''"]
    C4_boolean_coercion [of "''false''" example_host "JObj []" "''ok''"]
    C4_boolean_coercion [of "''yes''" example_host "JObj []" "''ok''"]
  by (simp add: store_def get_prop_def set_prop_def obj_get_def inherited_def
      object_prototype_names_def)

text \<open>
  C5 fails on the code: the validator reports one issue with the path \<open>a, b\<close> for a
  field \<open>a\<close> that the output object does not hold (a field with a preprocessing effect
  around an object, no entry given). The engine reads \<open>o['a']['b']\<close> and throws a
  TypeError instead of returning the error mapping. For the calls that return,
  \<open>add_issues_aggregates\<close> gives the mapping.
\<close>

theorem C5_failing_input:
  "getParamsInternal
     (example_host\<lparr>safeParse :=
        (\<lambda>schema o'. Inl [\<lparr>message = ''Required'', path = [PStr ''a'', PStr ''b'']\<rparr>])\<rparr>)
     [] (ZodObject [(''a'', ZodEffects (ZodObject [(''b'', ZodString)]))])
   = Inl TypeError"
  by (simp add: getParamsInternal_def example_host_def get_prop_def obj_get_def issue_key_def
      issue_index_def inherited_def object_prototype_names_def)

text \<open>
  C6. \<open>getParamsOrFail\<close> agrees with \<open>getParams\<close>: it returns the data of a
  \<open>Success\<close>, throws an error whose message is \<open>JSON.stringify\<close> of the error mapping
  of a \<open>Failure\<close>, and throws what \<open>getParams\<close> throws.
\<close>

theorem C6_or_fail_agrees:
  "getParamsOrFail h params schema =
     (case getParams h params schema of
        Inl e \<Rightarrow> Inl e
      | Inr (Success data) \<Rightarrow> Inr data
      | Inr (Failure errors) \<Rightarrow> Inl (Thrown (JSON_stringify h errors)))"
  by (simp add: getParamsOrFail_def getParams_def split: sum.splits parse_result.splits)




text \<open>
  C8 (as amended). In a key without a dot the first occurrence of the marker \<open>[]\<close> is
  removed, wherever it stands, and only the first: the text before it and the text
  after it are kept as they are, so \<open>a[]b[]\<close> becomes \<open>ab[]\<close>; a key without the
  marker is kept. The name so obtained is the one looked up in the shape and the one
  under which \<open>processDef\<close> stores, and the marker is used for nothing else: whether
  the value is appended is decided by \<open>processDef\<close> from the field's schema and the
  output object. Hence two keys that end with segments of the same name once the marker
  is removed are routed alike below the same parent segments, for every schema: the
  results are equal, or both are the shape error, which quotes the key as given.
\<close>

theorem C8_marker_removed_once:
  "(\<not> includes_brackets pre \<longrightarrow> replace_brackets (pre @ ''[]'' @ post) = pre @ post)
   \<and> (\<not> includes_brackets key0 \<longrightarrow> replace_brackets key0 = key0)
   \<and> (\<not> includes_dot key \<and> find_shape (Inst schema) key = Inr shape
        \<and> union_options shape = None \<longrightarrow>
      parseParams h o' schema key value =
        (case shape_at h shape (replace_brackets key) of
           Inl e \<Rightarrow> Inl e
         | Inr def \<Rightarrow>
             if truthy def then processDef h def o' (replace_brackets key) value else Inr o'))
   \<and> ((\<forall>seg \<in> set segs. \<not> includes_dot seg) \<and> \<not> includes_dot k1 \<and> \<not> includes_dot k2
        \<and> replace_brackets k1 = replace_brackets k2 \<longrightarrow>
      alike (parseParams h o1 schema1 (concat (map (\<lambda>seg. seg @ ''.'') segs) @ k1) value1)
            (parseParams h o1 schema1 (concat (map (\<lambda>seg. seg @ ''.'') segs) @ k2) value1))"
proof -
  have a: "\<not> includes_brackets pre \<longrightarrow> replace_brackets (pre @ ''[]'' @ post) = pre @ post"
    using replace_brackets_marker [of pre post] by simp
  have b: "\<not> includes_brackets key0 \<longrightarrow> replace_brackets key0 = key0"
    by (simp add: replace_brackets_none)
  show ?thesis
    using a b parseParams_plain [of schema key shape h o' "value"]
      parseParams_same_path [of segs k1 k2 h o1 schema1 value1]
    by blast
qed

theorem C8_marker_removed_once_witness:
  "replace_brackets ''a[]b[]'' = ''ab[]''
   \<and> replace_brackets ''tags'' = ''tags''
   \<and> parseParams example_host (JObj []) (ZodObject [(''ab[]'', ZodString)]) ''a[]b[]'' ''v''
      = Inr (JObj [(''ab[]'', JStr ''v'')])
   \<and> parseParams example_host (JObj [])
        (ZodObject [(''user'', ZodObject [(''tags'', ZodArray ZodString)])]) ''user.tags[]'' ''a''
      = Inr (JObj [(''user'', JObj [(''tags'', JArr [JStr ''a''])])])"
proof -
  let ?S = "ZodObject [(''ab[]'', ZodString)]"
  let ?U = "ZodObject [(''user'', ZodObject [(''tags'', ZodArray ZodString)])]"
  have fs: "find_shape (Inst ?S) ''a[]b[]'' = Inr (Fields [(''ab[]'', ZodString)])" by simp
  have segs: "\<forall>seg \<in> set [''user'']. \<not> includes_dot seg" by (simp add: includes_dot_def)
  have d: "\<not> includes_dot ''a[]b[]''" "\<not> includes_dot ''tags[]''" "\<not> includes_dot ''tags''"
    by (simp_all add: includes_dot_def)
  have e: "parseParams example_host (JObj []) ?U ''user.tags'' ''a''
      = Inr (JObj [(''user'', JObj [(''tags'', JArr [JStr ''a''])])])"
    by code_simp
  have st: "processDef example_host ZodString (JObj []) ''ab[]'' ''v''
      = Inr (JObj [(''ab[]'', JStr ''v'')])"
    by code_simp
  have al: "alike (parseParams example_host (JObj []) ?U ''user.tags[]'' ''a'')
                  (parseParams example_host (JObj []) ?U ''user.tags'' ''a'')"
    using C8_marker_removed_once [of "''a''" "''b[]''" "''tags''" "''a[]b[]''" ?S
        "Fields [(''ab[]'', ZodString)]" example_host "JObj []" "''v''"
        "[''user'']" "''tags[]''" "''tags''" "JObj []" ?U "''a''"] segs d
    by simp
  have r: "parseParams example_host (JObj []) ?U ''user.tags[]'' ''a''
      = Inr (JObj [(''user'', JObj [(''tags'', JArr [JStr ''a''])])])"
    using alike_Inr [OF al disjI2 [OF e]] e by simp
  show ?thesis
    using C8_marker_removed_once [of "''a''" "''b[]''" "''tags''" "''a[]b[]''" ?S
        "Fields [(''ab[]'', ZodString)]" example_host "JObj []" "''v''"
        "[''user'']" "''tags[]''" "''tags''" "JObj []" ?U "''a''"] fs d r st
    by (simp add: shape_at_def truthy_def)
qed

text \<open>
  C8 as stated fails: the key \<open>[]tags\<close> has no trailing marker, and yet the pair is
  routed to the field \<open>tags\<close>.
\<close>

theorem C8_counterexample:
  "parseParams example_host (JObj []) (ZodObject [(''tags'', ZodString)]) ''[]tags'' ''a''
   = Inr (JObj [(''tags'', JStr ''a'')])"
  by code_simp

text \<open>
  C9. For a schema whose shape resolution ends at \<open>null\<close>, and every key, resolution
  fails with the shape error that names the key, and so does \<open>parseParams\<close> on every
  output object and value; the whole call fails with the shape error that names the key
  of the first pair whose value is not empty, before any validation.
\<close>

theorem C9_shape_error:
  assumes "null_shape schema"
    and "filter (\<lambda>(k, v). v \<noteq> '''') entries = (key, value) # rest"
  shows "find_shape (Inst schema) key = Inl (ShapeError key)
    \<and> parseParams h o' schema key value = Inl (ShapeError key)
    \<and> getParamsInternal h entries schema = Inl (ShapeError key)"
proof -
  have fs: "find_shape (Inst schema) key = Inl (ShapeError key)"
    using assms(1) by (simp add: find_shape_null)
  have pp: "parseParams h o1 schema key value = Inl (ShapeError key)" for o1
    using parseParams_error [OF fs] .
  have ne: "value \<noteq> ''''"
    using assms(2) filter_eq_ConsD [OF assms(2)] by auto
  have "parse_entries h schema (JObj []) entries =
        parse_entries h schema (JObj []) ((key, value) # rest)"
    using parse_entries_filter [of h schema "JObj []" entries] assms(2) by simp
  also have "\<dots> = Inl (ShapeError key)"
    using ne pp by simp
  finally show ?thesis using fs pp by (simp add: getParamsInternal_def)
qed

theorem C9_shape_error_witness:
  "null_shape (ZodEffects ZodObjectNull)
   \<and> getParamsInternal example_host [(''q'', ''''), (''name'', ''x''), (''age'', ''1'')]
        (ZodEffects ZodObjectNull) = Inl (ShapeError ''name'')
   \<and> parseParams example_host (JObj []) (ZodEffects Null) ''name'' ''x''
      = Inl (ShapeError ''name'')
   \<and> parseParams example_host (JObj []) (ZodObject [(''a'', ZodObjectNull)]) ''a.b'' ''x''
      = Inl (ShapeError ''b'')"
proof -
  have n: "null_shape (ZodEffects ZodObjectNull)" "null_shape (ZodEffects Null)" by simp_all
  have f: "filter (\<lambda>(k, v). v \<noteq> '''') [(''q'', ''''), (''name'', ''x''), (''age'', ''1'')]
           = (''name'', ''x'') # [(''age'', ''1'')]"
    by simp
  have "parseParams example_host (JObj []) (ZodObject [(''a'', ZodObjectNull)]) ''a.b'' ''x''
      = Inl (ShapeError ''b'')"
    by code_simp
  then show ?thesis
    using C9_shape_error [OF n(1) f, of example_host "JObj []"]
      C9_shape_error [OF n(2) f, of example_host "JObj []"] n
    by simp
qed

text \<open>
  C10 fails on the code, by the defect of C5. The validator of a strict Object reports
  the issue \<open>Required\<close> with the path \<open>a, b\<close>, for a field \<open>a\<close> that the output object
  does not hold, and the issue of the unrecognized key \<open>x\<close> with the empty path. The
  engine reads \<open>o['a']['b']\<close> for the first issue and throws a TypeError: the message
  of the issue with the empty path is dropped with all the others. When the pair
  \<open>a.b\<close> is given the only issue is the one with the empty path, and its message is
  returned under \<open>undefined\<close>; for every call that returns its error mapping,
  \<open>empty_path_recorded\<close> gives the entry under \<open>undefined\<close>.
\<close>

theorem C10_failing_input:
  "getParamsInternal (example_host\<lparr>safeParse := strict_validator\<rparr>)
     [(''x.y'', ''1'')] (ZodObject [(''a'', ZodEffects (ZodObject [(''b'', ZodString)]))])
   = Inl TypeError
   \<and> getParamsInternal (example_host\<lparr>safeParse := strict_validator\<rparr>)
     [(''x.y'', ''1''), (''a.b'', ''v'')]
     (ZodObject [(''a'', ZodEffects (ZodObject [(''b'', ZodString)]))])
   = Inr (Failure [(''undefined'', Single (message unrecognized_key))])
   \<and> path unrecognized_key = []"
  by code_simp

end
